theory Spec2Isabelle
  imports Complex_Main
begin

section \<open>The SSE loss of the xgboost trees (sse_loss.hpp)\<close>

text \<open>
  The class \<open>SSELoss\<close> of \<open>methods/xgboost/loss_functions/sse_loss.hpp\<close> is embedded
  function by function. A vector (\<open>VecType\<close>, an Armadillo column of \<open>double\<close>) is a
  \<open>real list\<close>, and \<open>double\<close> arithmetic is the arithmetic of the reals: rounding,
  infinities and NaN are outside this model. An index (\<open>size_t\<close>) is a \<open>nat\<close>; the
  only arithmetic on indices is \<open>end - begin + 1\<close> behind a bounds check, which cannot
  wrap around.
\<close>

subsection \<open>Failures\<close>

text \<open>
  The library calls made by the class can fail in two ways: \<open>subvec\<close> with indices out
  of bounds, and an element-wise operation on vectors of different sizes (both a
  \<open>std::logic_error\<close> of Armadillo). A division whose divisor is zero has no value
  among the reals; it is a third failure, so that a zero divisor is never hidden behind
  the \<open>x / 0 = 0\<close> of HOL.
\<close>

datatype error = IndicesOutOfBounds | IncompatibleDimensions | DivisionByZero

definition bind_result :: "error + 'a \<Rightarrow> ('a \<Rightarrow> error + 'b) \<Rightarrow> error + 'b" where
  "bind_result r f = (case r of Inl e \<Rightarrow> Inl e | Inr x \<Rightarrow> f x)"

definition divide_checked :: "real \<Rightarrow> real \<Rightarrow> error + real" where
  "divide_checked x y = (if y = 0 then Inl DivisionByZero else Inr (x / y))"

subsection \<open>The vector operations the class uses\<close>

text \<open>\<open>arma::accu\<close>: the sum of all elements.\<close>

definition accu :: "real list \<Rightarrow> real" where
  "accu v = sum_list v"

text \<open>
  \<open>v.subvec(in_row1, in_row2)\<close>: the elements at the indices \<open>in_row1\<close> to
  \<open>in_row2\<close>, both included; it fails when \<open>in_row1 > in_row2\<close> or
  \<open>in_row2 \<ge> n_elem\<close>.
\<close>

definition subvec :: "real list \<Rightarrow> nat \<Rightarrow> nat \<Rightarrow> error + real list" where
  "subvec v in_row1 in_row2 =
     (if in_row1 > in_row2 \<or> in_row2 \<ge> length v then Inl IndicesOutOfBounds
      else Inr (take (in_row2 - in_row1 + 1) (drop in_row1 v)))"

text \<open>\<open>a - b\<close> on vectors: element-wise, and a failure when the sizes differ.\<close>

definition vec_minus :: "real list \<Rightarrow> real list \<Rightarrow> error + real list" where
  "vec_minus a b =
     (if length a \<noteq> length b then Inl IncompatibleDimensions
      else Inr (map2 (-) a b))"

text \<open>\<open>VecType h(n, arma::fill::ones)\<close>: a vector of \<open>n\<close> ones.\<close>

definition ones :: "nat \<Rightarrow> real list" where
  "ones n = replicate n 1"

subsection \<open>The loss object\<close>

text \<open>The two private members, in the order of their declaration.\<close>

record SSELoss =
  lambda :: real
  alpha :: real

text \<open>The default constructor (no regularization) and the constructor with parameters.\<close>

definition SSELoss_default :: SSELoss where
  "SSELoss_default = \<lparr>lambda = 0, alpha = 0\<rparr>"

definition SSELoss_init :: "real \<Rightarrow> real \<Rightarrow> SSELoss" where
  "SSELoss_init a l = \<lparr>lambda = l, alpha = a\<rparr>"

subsection \<open>The member functions\<close>

definition InitialPrediction :: "real list \<Rightarrow> real" where
  "InitialPrediction values =
     (if length values = 0 then 0
      else accu values / real (length values))"

definition Gradients :: "real list \<Rightarrow> real list \<Rightarrow> error + real list" where
  "Gradients observed values = vec_minus values observed"

definition Hessians :: "real list \<Rightarrow> real list \<Rightarrow> real list" where
  "Hessians observed values = ones (length values)"

definition Residuals :: "real list \<Rightarrow> real list \<Rightarrow> error + real list" where
  "Residuals observed f = vec_minus observed f"

definition ApplyL1 :: "SSELoss \<Rightarrow> real \<Rightarrow> real" where
  "ApplyL1 this sumGradients =
     (if sumGradients > alpha this then sumGradients - alpha this
      else if sumGradients < - alpha this then sumGradients + alpha this
      else 0)"

definition OutputValue :: "SSELoss \<Rightarrow> real list \<Rightarrow> real list \<Rightarrow> error + real" where
  "OutputValue this gradients hessians =
     divide_checked (- ApplyL1 this (accu gradients)) (accu hessians + lambda this)"

text \<open>
  \<open>SimilarityScore\<close> first binds two locals, \<open>gradients\<close> and \<open>hessians\<close>, each from
  the slices \<open>observed.subvec(begin, end)\<close> and \<open>residuals.subvec(begin, end)\<close>; they
  are given names here so that statements can speak about them.
\<close>

definition SimilarityScore_gradients ::
    "real list \<Rightarrow> real list \<Rightarrow> nat \<Rightarrow> nat \<Rightarrow> error + real list" where
  "SimilarityScore_gradients observed residuals begin end =
     bind_result (subvec observed begin end) (\<lambda>obs.
     bind_result (subvec residuals begin end) (\<lambda>res.
       Gradients obs res))"

definition SimilarityScore_hessians ::
    "real list \<Rightarrow> real list \<Rightarrow> nat \<Rightarrow> nat \<Rightarrow> error + real list" where
  "SimilarityScore_hessians observed residuals begin end =
     bind_result (subvec observed begin end) (\<lambda>obs.
     bind_result (subvec residuals begin end) (\<lambda>res.
       Inr (Hessians obs res)))"

definition SimilarityScore ::
    "SSELoss \<Rightarrow> real list \<Rightarrow> real list \<Rightarrow> nat \<Rightarrow> nat \<Rightarrow> error + real" where
  "SimilarityScore this observed residuals begin end =
     bind_result (SimilarityScore_gradients observed residuals begin end) (\<lambda>gradients.
     bind_result (SimilarityScore_hessians observed residuals begin end) (\<lambda>hessians.
       divide_checked ((ApplyL1 this (accu gradients))\<^sup>2)
         (accu hessians + lambda this)))"

section \<open>Properties\<close>

subsection \<open>Soft thresholding\<close>

lemma ApplyL1_odd: "0 \<le> alpha this \<Longrightarrow> ApplyL1 this (- s) = - ApplyL1 this s"
  by (simp add: ApplyL1_def)

text \<open>
  C4. For a scalar \<open>s\<close> and \<open>alpha \<ge> 0\<close>, \<open>ApplyL1\<close> returns \<open>s - alpha\<close> if
  \<open>s > alpha\<close>, \<open>s + alpha\<close> if \<open>s < - alpha\<close>, and \<open>0\<close> otherwise. With \<open>alpha = 2\<close>
  (and any \<open>lambda\<close>): \<open>ApplyL1 5 = 3\<close>, \<open>ApplyL1 (-5) = -3\<close>, \<open>ApplyL1 1 = 0\<close>,
  \<open>ApplyL1 (-1) = 0\<close>, \<open>ApplyL1 2 = 0\<close>.
\<close>

theorem ApplyL1_soft_threshold:
  assumes "0 \<le> alpha this"
  shows "(s > alpha this \<longrightarrow> ApplyL1 this s = s - alpha this)
       \<and> (s < - alpha this \<longrightarrow> ApplyL1 this s = s + alpha this)
       \<and> (\<not> s > alpha this \<and> \<not> s < - alpha this \<longrightarrow> ApplyL1 this s = 0)
       \<and> ApplyL1 (SSELoss_init 2 l) 5 = 3
       \<and> ApplyL1 (SSELoss_init 2 l) (- 5) = - 3
       \<and> ApplyL1 (SSELoss_init 2 l) 1 = 0
       \<and> ApplyL1 (SSELoss_init 2 l) (- 1) = 0
       \<and> ApplyL1 (SSELoss_init 2 l) 2 = 0"
  using assms by (simp add: ApplyL1_def SSELoss_init_def)

theorem ApplyL1_soft_threshold_witness:
  "0 \<le> alpha (SSELoss_init 2 0)
   \<and> 5 > alpha (SSELoss_init 2 0)
   \<and> ApplyL1 (SSELoss_init 2 0) 5 = 5 - alpha (SSELoss_init 2 0)
   \<and> - 5 < - alpha (SSELoss_init 2 0)
   \<and> ApplyL1 (SSELoss_init 2 0) (- 5) = - 5 + alpha (SSELoss_init 2 0)
   \<and> \<not> 1 > alpha (SSELoss_init 2 0) \<and> \<not> 1 < - alpha (SSELoss_init 2 0)
   \<and> ApplyL1 (SSELoss_init 2 0) 1 = 0"
proof -
  have a: "0 \<le> alpha (SSELoss_init 2 0)"
    by (simp add: SSELoss_init_def)
  show ?thesis
    using ApplyL1_soft_threshold [OF a, of 5 0]
      ApplyL1_soft_threshold [OF a, of "- 5" 0]
      ApplyL1_soft_threshold [OF a, of 1 0]
    by (simp add: SSELoss_init_def)
qed

subsection \<open>Sums, slices and the two locals of SimilarityScore\<close>

lemma accu_Nil: "accu [] = 0"
  by (simp add: accu_def)

lemma accu_Cons: "accu (x # xs) = x + accu xs"
  by (simp add: accu_def)

lemma accu_ones: "accu (ones n) = real n"
  by (induction n) (simp_all add: accu_def ones_def)

lemma accu_map_uminus: "accu (map uminus v) = - accu v"
  by (induction v) (simp_all add: accu_def)

lemma accu_map2_minus:
  "length a = length b \<Longrightarrow> accu (map2 (-) a b) = accu a - accu b"
  by (induction a b rule: list_induct2) (simp_all add: accu_def)

lemma take_drop_nth:
  assumes "b \<le> e" and "e < length v"
  shows "take (e - b + 1) (drop b v) = map (\<lambda>i. v ! i) [b..<Suc e]"
proof -
  have "take (e - b + 1) (drop b (map ((!) v) [0..<length v]))
      = map ((!) v) (take (e - b + 1) (drop b [0..<length v]))"
    by (simp only: take_map drop_map)
  also have "drop b [0..<length v] = [b..<length v]"
    by simp
  also have "take (e - b + 1) [b..<length v] = [b..<Suc e]"
    using assms by simp
  finally show ?thesis
    by (simp add: map_nth)
qed

lemma subvec_in_bounds:
  "b \<le> e \<Longrightarrow> e < length v \<Longrightarrow> subvec v b e = Inr (map (\<lambda>i. v ! i) [b..<Suc e])"
  using take_drop_nth [of b e v] by (simp add: subvec_def)

lemma subvec_length:
  "subvec v b e = Inr s \<Longrightarrow> length s = e - b + 1"
  by (auto simp: subvec_def split: if_splits)

lemma bind_result_Inr: "bind_result (Inr x) f = f x"
  by (simp add: bind_result_def)

lemma bind_result_Inl: "bind_result (Inl e) f = Inl e"
  by (simp add: bind_result_def)

lemma map2_minus_slices:
  "map2 (-) (map (\<lambda>i. r ! i) ns) (map (\<lambda>i. ob ! i) ns) = map (\<lambda>i. r ! i - ob ! i) ns"
  by (induction ns) simp_all

lemma SimilarityScore_gradients_in_bounds:
  assumes "b \<le> e" and "e < length observed" and "e < length residuals"
  shows "SimilarityScore_gradients observed residuals b e
       = Inr (map (\<lambda>i. residuals ! i - observed ! i) [b..<Suc e])"
  using assms
  by (simp add: SimilarityScore_gradients_def subvec_in_bounds bind_result_Inr
      Gradients_def vec_minus_def map2_minus_slices)

lemma SimilarityScore_hessians_in_bounds:
  assumes "b \<le> e" and "e < length observed" and "e < length residuals"
  shows "SimilarityScore_hessians observed residuals b e = Inr (ones (e - b + 1))"
  using assms
  by (simp add: SimilarityScore_hessians_def subvec_in_bounds bind_result_Inr
      Hessians_def)

lemma SimilarityScore_in_bounds:
  assumes "b \<le> e" and "e < length observed" and "e < length residuals"
    and "0 \<le> lambda this"
  shows "SimilarityScore this observed residuals b e
       = Inr ((ApplyL1 this (accu (map (\<lambda>i. residuals ! i - observed ! i) [b..<Suc e])))\<^sup>2
              / (real (e - b + 1) + lambda this))"
proof -
  have "real (e - b + 1) + lambda this \<noteq> 0"
    using assms(4) by (simp add: add_nonneg_eq_0_iff)
  then show ?thesis
    using assms(1-3)
    by (simp only: SimilarityScore_def SimilarityScore_gradients_in_bounds
        SimilarityScore_hessians_in_bounds bind_result_Inr accu_ones
        divide_checked_def if_False)
qed


subsection \<open>The initial prediction\<close>

text \<open>
  C5. \<open>InitialPrediction\<close> returns the arithmetic mean of a non-empty sequence, and
  \<open>0\<close> for the empty one; it is a total function into the reals, with no failure
  among its results.
\<close>

theorem InitialPrediction_mean:
  "(values \<noteq> [] \<longrightarrow> InitialPrediction values = sum_list values / real (length values))
   \<and> InitialPrediction [] = 0"
  by (simp add: InitialPrediction_def accu_def)

theorem InitialPrediction_mean_witness:
  "[1, 2, 3, 6] \<noteq> ([] :: real list) \<and> InitialPrediction [1, 2, 3, 6] = 3
   \<and> InitialPrediction [] = 0"
  using InitialPrediction_mean [of "[1, 2, 3, 6]"] by simp

subsection \<open>Gradients, Hessians and residuals\<close>

text \<open>
  C6. For sequences of equal length, \<open>Gradients observed f\<close> is \<open>f - observed\<close>
  element by element, \<open>Residuals observed f\<close> is \<open>observed - f\<close> element by element,
  and so the residuals are the negated gradients.
\<close>

theorem Gradients_Residuals_elementwise:
  assumes "length observed = length f"
  shows "\<exists>g r. Gradients observed f = Inr g \<and> Residuals observed f = Inr r
           \<and> length g = length f \<and> length r = length f
           \<and> (\<forall>i<length f. g ! i = f ! i - observed ! i
                 \<and> r ! i = observed ! i - f ! i \<and> r ! i = - g ! i)
           \<and> r = map uminus g"
proof -
  let ?g = "map2 (-) f observed" and ?r = "map2 (-) observed f"
  have "Gradients observed f = Inr ?g" and "Residuals observed f = Inr ?r"
    using assms by (simp_all add: Gradients_def Residuals_def vec_minus_def)
  moreover have "length ?g = length f" and "length ?r = length f"
    using assms by simp_all
  moreover have "\<forall>i<length f. ?g ! i = f ! i - observed ! i
      \<and> ?r ! i = observed ! i - f ! i \<and> ?r ! i = - ?g ! i"
    using assms by simp
  moreover have "?r = map uminus ?g"
    using assms by (induction observed f rule: list_induct2) simp_all
  ultimately show ?thesis
    by blast
qed

theorem Gradients_Residuals_elementwise_witness:
  "length [1, 2, 3 :: real] = length [5, 1, 3 :: real]
   \<and> Gradients [1, 2, 3] [5, 1, 3] = Inr [4, - 1, 0]
   \<and> Residuals [1, 2, 3] [5, 1, 3] = Inr [- 4, 1, 0]"
proof -
  have len: "length [1, 2, 3 :: real] = length [5, 1, 3 :: real]"
    by simp
  from Gradients_Residuals_elementwise [OF len]
  obtain g r where "Gradients [1, 2, 3] [5, 1, 3] = Inr g"
    and "Residuals [1, 2, 3] [5, 1, 3] = Inr r"
    by blast
  then show ?thesis
    by (simp add: Gradients_def Residuals_def vec_minus_def)
qed

text \<open>
  C7. \<open>Hessians observed values\<close> has the length of \<open>values\<close>, each of its entries
  is \<open>1\<close>, and it is the same for any two \<open>observed\<close> arguments.
\<close>

theorem Hessians_all_ones:
  "length (Hessians observed values) = length values
   \<and> (\<forall>i<length values. Hessians observed values ! i = 1)
   \<and> Hessians observed values = replicate (length values) 1
   \<and> Hessians observed values = Hessians observed' values"
  by (simp add: Hessians_def ones_def)

theorem Hessians_all_ones_witness:
  "length (Hessians [7, 8] [3, 4, 5]) = 3
   \<and> (0::nat) < length [3, 4, 5 :: real] \<and> Hessians [7, 8] [3, 4, 5] ! 0 = 1
   \<and> Hessians [7, 8] [3, 4, 5] = [1, 1, 1]
   \<and> Hessians [7, 8] [3, 4, 5] = Hessians [] [3, 4, 5]"
proof -
  note h = Hessians_all_ones [of "[7, 8]" "[3, 4, 5]" "[]"]
  have "length (Hessians [7, 8] [3, 4, 5]) = 3"
    using h by simp
  moreover have "Hessians [7, 8] [3, 4, 5] ! 0 = 1"
    using h by simp
  moreover have "Hessians [7, 8] [3, 4, 5] = [1, 1, 1]"
    using h by (simp add: numeral_3_eq_3)
  moreover have "Hessians [7, 8] [3, 4, 5] = Hessians [] [3, 4, 5]"
    using h by blast
  ultimately show ?thesis
    by simp
qed

subsection \<open>The output value of a leaf\<close>

text \<open>
  C3. When the divisor \<open>sum hessians + lambda\<close> is not zero, \<open>OutputValue\<close> is
  \<open>- ApplyL1 (sum gradients) / (sum hessians + lambda)\<close>; with \<open>alpha = 0\<close> this is
  \<open>- sum gradients / (sum hessians + lambda)\<close>, and with \<open>alpha = 0\<close> and
  \<open>lambda = 0\<close> it is \<open>- sum gradients / sum hessians\<close>.
\<close>

theorem OutputValue_formula:
  assumes "sum_list hessians + lambda this \<noteq> 0"
  shows "OutputValue this gradients hessians
           = Inr (- ApplyL1 this (sum_list gradients) / (sum_list hessians + lambda this))
       \<and> (alpha this = 0 \<longrightarrow> OutputValue this gradients hessians
             = Inr (- sum_list gradients / (sum_list hessians + lambda this)))
       \<and> (alpha this = 0 \<and> lambda this = 0 \<longrightarrow> OutputValue this gradients hessians
             = Inr (- sum_list gradients / sum_list hessians))"
  using assms by (simp add: OutputValue_def divide_checked_def accu_def ApplyL1_def)

theorem OutputValue_formula_witness:
  "sum_list [1, 1] + lambda (SSELoss_init 0 2) \<noteq> 0
   \<and> alpha (SSELoss_init 0 2) = 0
   \<and> OutputValue (SSELoss_init 0 2) [1, 2] [1, 1] = Inr (- 3 / 4)
   \<and> sum_list [1, 1] + lambda SSELoss_default \<noteq> 0
   \<and> alpha SSELoss_default = 0 \<and> lambda SSELoss_default = 0
   \<and> OutputValue SSELoss_default [1, 2] [1, 1] = Inr (- 3 / 2)"
proof -
  have d1: "sum_list [1, 1] + lambda (SSELoss_init 0 2) \<noteq> 0"
    by (simp add: SSELoss_init_def)
  have d2: "sum_list [1, 1] + lambda SSELoss_default \<noteq> 0"
    by (simp add: SSELoss_default_def)
  show ?thesis
    using OutputValue_formula [OF d1, of "[1, 2]"] OutputValue_formula [OF d2, of "[1, 2]"]
    by (simp add: SSELoss_init_def SSELoss_default_def ApplyL1_def)
qed

text \<open>
  C10. For \<open>alpha \<ge> 0\<close>, any \<open>lambda\<close> and a divisor that is not zero, negating every
  gradient negates the output value, since \<open>ApplyL1\<close> is then an odd function.
\<close>

theorem OutputValue_negated_gradients:
  assumes "0 \<le> alpha this" and "sum_list hessians + lambda this \<noteq> 0"
  shows "\<exists>v. OutputValue this gradients hessians = Inr v
           \<and> OutputValue this (map uminus gradients) hessians = Inr (- v)"
  using assms
  by (simp add: OutputValue_def divide_checked_def accu_def [of hessians]
      accu_map_uminus ApplyL1_odd)

theorem OutputValue_negated_gradients_witness:
  "0 \<le> alpha (SSELoss_init 1 2) \<and> sum_list [1, 1] + lambda (SSELoss_init 1 2) \<noteq> 0
   \<and> OutputValue (SSELoss_init 1 2) [3, 4] [1, 1] = Inr (- 3 / 2)
   \<and> OutputValue (SSELoss_init 1 2) (map uminus [3, 4]) [1, 1] = Inr (3 / 2)"
proof -
  have a: "0 \<le> alpha (SSELoss_init 1 2)"
    and d: "sum_list [1, 1] + lambda (SSELoss_init 1 2) \<noteq> 0"
    by (simp_all add: SSELoss_init_def)
  from OutputValue_negated_gradients [OF a d, of "[3, 4]"]
  obtain v where "OutputValue (SSELoss_init 1 2) [3, 4] [1, 1] = Inr v"
    and "OutputValue (SSELoss_init 1 2) (map uminus [3, 4]) [1, 1] = Inr (- v)"
    by blast
  moreover have "OutputValue (SSELoss_init 1 2) [3, 4] [1, 1] = Inr (- 3 / 2)"
    by (simp add: OutputValue_def divide_checked_def accu_def ApplyL1_def SSELoss_init_def)
  ultimately show ?thesis
    using a d by simp
qed

subsection \<open>The similarity score\<close>

lemma SimilarityScore_gradients_example:
  "SimilarityScore_gradients [1, 2, 3, 4] [1, 1, 1, 1] 0 3 = Inr [0, - 1, - 2, - 3]"
  by (simp add: SimilarityScore_gradients_def subvec_def bind_result_def
      Gradients_def vec_minus_def)

lemma SimilarityScore_hessians_example:
  "SimilarityScore_hessians [1, 2, 3, 4] [1, 1, 1, 1] 0 3 = Inr [1, 1, 1, 1]"
  by (simp add: SimilarityScore_hessians_def subvec_def bind_result_def
      Hessians_def ones_def numeral_eq_Suc)

text \<open>
  C1, as stated: the per-range gradients of \<open>SimilarityScore\<close> are
  \<open>Gradients\<close> of the residuals slice with itself, so their sum is always \<open>0\<close>.
  This fails at \<open>observed = [1,2,3,4]\<close>, \<open>residuals = [1,1,1,1]\<close>, \<open>begin = 0\<close>,
  \<open>end = 3\<close>: the gradients are \<open>[0,-1,-2,-3]\<close>, not \<open>[0,0,0,0]\<close>, and their sum is
  \<open>-6\<close>.
\<close>

theorem SimilarityScore_gradients_not_residuals_only:
  "length [1, 2, 3, 4 :: real] = length [1, 1, 1, 1 :: real]
   \<and> subvec [1, 1, 1, 1] 0 3 = Inr [1, 1, 1, 1]
   \<and> Gradients [1, 1, 1, 1] [1, 1, 1, 1] = Inr [0, 0, 0, 0]
   \<and> SimilarityScore_gradients [1, 2, 3, 4] [1, 1, 1, 1] 0 3 = Inr [0, - 1, - 2, - 3]
   \<and> SimilarityScore_gradients [1, 2, 3, 4] [1, 1, 1, 1] 0 3
        \<noteq> Gradients [1, 1, 1, 1] [1, 1, 1, 1]
   \<and> accu [0, - 1, - 2, - 3] = - 6
   \<and> accu [0, - 1, - 2, - 3] \<noteq> 0"
  by (simp add: SimilarityScore_gradients_example)
     (simp add: subvec_def Gradients_def vec_minus_def accu_def)

text \<open>
  C1, amended. For \<open>observed\<close> and \<open>residuals\<close> of equal length and a valid inclusive
  range, the per-range gradients of \<open>SimilarityScore\<close> are
  \<open>Gradients (observed[begin..end]) (residuals[begin..end])\<close>: the observed slice is
  the "observed" argument and the residuals slice the "values" argument. They are
  \<open>residuals[i] - observed[i]\<close> for \<open>i\<close> from \<open>begin\<close> to \<open>end\<close>, and their sum is the
  sum of the residuals slice minus the sum of the observed slice.
\<close>

theorem SimilarityScore_gradients_observed_and_residuals:
  assumes "length observed = length residuals" and "begin \<le> end"
    and "end < length observed"
  shows "\<exists>obs res. subvec observed begin end = Inr obs
           \<and> subvec residuals begin end = Inr res
           \<and> SimilarityScore_gradients observed residuals begin end = Gradients obs res
           \<and> SimilarityScore_gradients observed residuals begin end
                = Inr (map (\<lambda>i. residuals ! i - observed ! i) [begin..<Suc end])
           \<and> accu (map (\<lambda>i. residuals ! i - observed ! i) [begin..<Suc end])
                = accu res - accu obs"
proof -
  let ?obs = "map (\<lambda>i. observed ! i) [begin..<Suc end]"
  let ?res = "map (\<lambda>i. residuals ! i) [begin..<Suc end]"
  have o: "subvec observed begin end = Inr ?obs"
    and r: "subvec residuals begin end = Inr ?res"
    using assms by (simp_all add: subvec_in_bounds)
  have g: "SimilarityScore_gradients observed residuals begin end = Gradients ?obs ?res"
    by (simp add: SimilarityScore_gradients_def o r bind_result_Inr)
  have v: "SimilarityScore_gradients observed residuals begin end
      = Inr (map (\<lambda>i. residuals ! i - observed ! i) [begin..<Suc end])"
    using assms by (simp add: SimilarityScore_gradients_in_bounds)
  have "accu (map2 (-) ?res ?obs) = accu ?res - accu ?obs"
    by (rule accu_map2_minus) simp
  then have s: "accu (map (\<lambda>i. residuals ! i - observed ! i) [begin..<Suc end])
      = accu ?res - accu ?obs"
    by (simp only: map2_minus_slices)
  from o r g v s show ?thesis
    by blast
qed

theorem SimilarityScore_gradients_observed_and_residuals_witness:
  "length [1, 2, 3, 4 :: real] = length [1, 1, 1, 1 :: real]
   \<and> (0::nat) \<le> 3 \<and> 3 < length [1, 2, 3, 4 :: real]
   \<and> SimilarityScore_gradients [1, 2, 3, 4] [1, 1, 1, 1] 0 3
        = Inr (map (\<lambda>i. [1, 1, 1, 1] ! i - [1, 2, 3, 4] ! i) [0..<Suc 3])
   \<and> map (\<lambda>i. [1, 1, 1, 1] ! i - [1, 2, 3, 4 :: real] ! i) [0..<Suc 3]
        = [0, - 1, - 2, - 3]"
proof -
  have len: "length [1, 2, 3, 4 :: real] = length [1, 1, 1, 1 :: real]"
    and le: "(0::nat) \<le> 3" and lt: "3 < length [1, 2, 3, 4 :: real]"
    by simp_all
  from SimilarityScore_gradients_observed_and_residuals [OF len le lt]
  have "SimilarityScore_gradients [1, 2, 3, 4] [1, 1, 1, 1] 0 3
        = Inr (map (\<lambda>i. [1, 1, 1, 1] ! i - [1, 2, 3, 4] ! i) [0..<Suc 3])"
    by blast
  moreover have "map (\<lambda>i. [1, 1, 1, 1] ! i - [1, 2, 3, 4 :: real] ! i) [0..<Suc 3]
        = [0, - 1, - 2, - 3]"
    by (simp add: upt_rec numeral_eq_Suc)
  ultimately show ?thesis
    using len le lt by simp
qed

text \<open>
  C2. For \<open>observed = [1,2,3,4]\<close>, \<open>residuals = [1,1,1,1]\<close>, \<open>begin = 0\<close>, \<open>end = 3\<close>:
  the gradients sum to \<open>-6\<close> and the Hessians to \<open>4\<close>; \<open>SimilarityScore\<close> is \<open>9\<close>
  with \<open>alpha = 0\<close>, \<open>lambda = 0\<close>, it is \<open>6\<close> with \<open>alpha = 0\<close>, \<open>lambda = 2\<close>, and it
  is \<open>6.25\<close> with \<open>alpha = 1\<close>, \<open>lambda = 0\<close>, where the gradient sum is thresholded to
  \<open>-5\<close>.
\<close>

theorem SimilarityScore_scenarios:
  "SimilarityScore_gradients [1, 2, 3, 4] [1, 1, 1, 1] 0 3 = Inr [0, - 1, - 2, - 3]
   \<and> accu [0, - 1, - 2, - 3] = - 6
   \<and> SimilarityScore_hessians [1, 2, 3, 4] [1, 1, 1, 1] 0 3 = Inr [1, 1, 1, 1]
   \<and> accu [1, 1, 1, 1] = 4
   \<and> SimilarityScore SSELoss_default [1, 2, 3, 4] [1, 1, 1, 1] 0 3 = Inr 9
   \<and> SimilarityScore (SSELoss_init 0 0) [1, 2, 3, 4] [1, 1, 1, 1] 0 3 = Inr 9
   \<and> SimilarityScore (SSELoss_init 0 2) [1, 2, 3, 4] [1, 1, 1, 1] 0 3 = Inr 6
   \<and> ApplyL1 (SSELoss_init 1 0) (- 6) = - 5
   \<and> SimilarityScore (SSELoss_init 1 0) [1, 2, 3, 4] [1, 1, 1, 1] 0 3 = Inr (25 / 4)"
  by (simp add: SimilarityScore_def SimilarityScore_gradients_example
      SimilarityScore_hessians_example bind_result_Inr accu_def divide_checked_def
      ApplyL1_def SSELoss_default_def SSELoss_init_def)

text \<open>
  C8. For a valid inclusive range (\<open>begin \<le> end\<close>, \<open>end\<close> in bounds of both
  sequences) and \<open>lambda \<ge> 0\<close>, \<open>SimilarityScore\<close> returns a value, and the value is
  not negative. This holds for every \<open>alpha\<close>, so in particular for \<open>alpha \<ge> 0\<close>.
\<close>

theorem SimilarityScore_nonnegative:
  assumes "begin \<le> end" and "end < length observed" and "end < length residuals"
    and "0 \<le> lambda this"
  shows "\<exists>v. SimilarityScore this observed residuals begin end = Inr v \<and> 0 \<le> v"
proof -
  have "0 \<le> real (end - begin + 1) + lambda this"
    using assms(4) by simp
  then show ?thesis
    by (simp add: SimilarityScore_in_bounds [OF assms])
qed

theorem SimilarityScore_nonnegative_witness:
  "(1::nat) \<le> 2 \<and> 2 < length [1, 2, 3, 4 :: real] \<and> 2 < length [1, 1, 1, 1 :: real]
   \<and> 0 \<le> lambda (SSELoss_init 1 2)
   \<and> (\<exists>v. SimilarityScore (SSELoss_init 1 2) [1, 2, 3, 4] [1, 1, 1, 1] 1 2 = Inr v
         \<and> 0 \<le> v)"
proof -
  have le: "(1::nat) \<le> 2" and o: "2 < length [1, 2, 3, 4 :: real]"
    and r: "2 < length [1, 1, 1, 1 :: real]" and l: "0 \<le> lambda (SSELoss_init 1 2)"
    by (simp_all add: SSELoss_init_def)
  show ?thesis
    using SimilarityScore_nonnegative [OF le o r l] le o r l by blast
qed

text \<open>
  C9. For a valid inclusive range and \<open>lambda \<ge> 0\<close>, the divisor of
  \<open>SimilarityScore\<close>, the sum of its Hessians plus \<open>lambda\<close>, is
  \<open>(end - begin + 1) + lambda\<close>, which is at least \<open>1\<close>; so \<open>SimilarityScore\<close> does
  not divide by zero there. \<open>OutputValue\<close> can: on empty vectors with \<open>lambda = 0\<close>
  its divisor is \<open>0\<close>.
\<close>

theorem SimilarityScore_divisor_positive:
  assumes "begin \<le> end" and "end < length observed" and "end < length residuals"
    and "0 \<le> lambda this"
  shows "(\<exists>hessians. SimilarityScore_hessians observed residuals begin end = Inr hessians
            \<and> accu hessians + lambda this = real (end - begin + 1) + lambda this
            \<and> 1 \<le> accu hessians + lambda this)
       \<and> SimilarityScore this observed residuals begin end \<noteq> Inl DivisionByZero
       \<and> accu [] + lambda SSELoss_default = 0
       \<and> OutputValue SSELoss_default [] [] = Inl DivisionByZero"
proof -
  have "SimilarityScore_hessians observed residuals begin end = Inr (ones (end - begin + 1))"
    using assms(1-3) by (rule SimilarityScore_hessians_in_bounds)
  moreover have "accu (ones (end - begin + 1)) + lambda this
      = real (end - begin + 1) + lambda this"
    by (simp only: accu_ones)
  moreover have "1 \<le> accu (ones (end - begin + 1)) + lambda this"
    using assms(4) by (simp add: accu_ones)
  moreover have "SimilarityScore this observed residuals begin end \<noteq> Inl DivisionByZero"
    by (simp add: SimilarityScore_in_bounds [OF assms])
  moreover have "accu [] + lambda SSELoss_default = 0"
    and "OutputValue SSELoss_default [] [] = Inl DivisionByZero"
    by (simp_all add: OutputValue_def divide_checked_def accu_def SSELoss_default_def)
  ultimately show ?thesis
    by blast
qed

theorem SimilarityScore_divisor_positive_witness:
  "(1::nat) \<le> 2 \<and> 2 < length [1, 2, 3, 4 :: real] \<and> 2 < length [1, 1, 1, 1 :: real]
   \<and> 0 \<le> lambda SSELoss_default
   \<and> SimilarityScore_hessians [1, 2, 3, 4] [1, 1, 1, 1] 1 2 = Inr [1, 1]
   \<and> accu [1, 1] + lambda SSELoss_default = 2
   \<and> SimilarityScore SSELoss_default [1, 2, 3, 4] [1, 1, 1, 1] 1 2 \<noteq> Inl DivisionByZero"
proof -
  have le: "(1::nat) \<le> 2" and o: "2 < length [1, 2, 3, 4 :: real]"
    and r: "2 < length [1, 1, 1, 1 :: real]" and l: "0 \<le> lambda SSELoss_default"
    by (simp_all add: SSELoss_default_def)
  note d = SimilarityScore_divisor_positive [OF le o r l]
  from d obtain hessians
    where h: "SimilarityScore_hessians [1, 2, 3, 4] [1, 1, 1, 1] 1 2 = Inr hessians"
      and a: "accu hessians + lambda SSELoss_default = real (2 - 1 + 1) + lambda SSELoss_default"
    by blast
  have "SimilarityScore_hessians [1, 2, 3, 4] [1, 1, 1, 1] 1 2 = Inr [1, 1]"
    by (simp add: SimilarityScore_hessians_def subvec_def bind_result_def
        Hessians_def ones_def numeral_eq_Suc)
  with h have "hessians = [1, 1]"
    by simp
  with a have "accu [1, 1] + lambda SSELoss_default = 2"
    by (simp add: SSELoss_default_def)
  moreover have "SimilarityScore SSELoss_default [1, 2, 3, 4] [1, 1, 1, 1] 1 2
      \<noteq> Inl DivisionByZero"
    using d by blast
  ultimately show ?thesis
    using le o r l h \<open>hessians = [1, 1]\<close> by simp
qed

end
